theory Spec2Isabelle
  imports Complex_Main
begin

section \<open>JavaScript numbers\<close>

text \<open>
  The amounts and timestamps of the library are JavaScript numbers. A number is modelled
  as \<open>NaN\<close> or as an exact finite value; the infinities and the rounding of IEEE doubles
  are outside this model (every integer below \<open>2 ^ 53\<close> in magnitude and every dyadic
  fraction used below is exact in a double).
\<close>

datatype jsnum = NaN | Fin rat

definition isNaN :: "jsnum \<Rightarrow> bool" where
  "isNaN x = (case x of NaN \<Rightarrow> True | Fin _ \<Rightarrow> False)"

text \<open>\<open>!x\<close> on a number: true for \<open>0\<close> and for \<open>NaN\<close>.\<close>

definition js_not :: "jsnum \<Rightarrow> bool" where
  "js_not x = (case x of NaN \<Rightarrow> True | Fin r \<Rightarrow> r = 0)"

text \<open>\<open>a || b\<close> on numbers: \<open>a\<close> when it is truthy, else \<open>b\<close>.\<close>

definition js_or :: "jsnum \<Rightarrow> jsnum \<Rightarrow> jsnum" where
  "js_or a b = (if js_not a then b else a)"

definition jadd :: "jsnum \<Rightarrow> jsnum \<Rightarrow> jsnum" where
  "jadd a b = (case (a, b) of (Fin x, Fin y) \<Rightarrow> Fin (x + y) | _ \<Rightarrow> NaN)"

definition jsub :: "jsnum \<Rightarrow> jsnum \<Rightarrow> jsnum" where
  "jsub a b = (case (a, b) of (Fin x, Fin y) \<Rightarrow> Fin (x - y) | _ \<Rightarrow> NaN)"

definition jmul :: "jsnum \<Rightarrow> jsnum \<Rightarrow> jsnum" where
  "jmul a b = (case (a, b) of (Fin x, Fin y) \<Rightarrow> Fin (x * y) | _ \<Rightarrow> NaN)"

text \<open>Division; the library only divides by the constant 5, so the divisor is never zero
  (where JavaScript would give an infinity, which the model does not have).\<close>

definition jdiv :: "jsnum \<Rightarrow> jsnum \<Rightarrow> jsnum" where
  "jdiv a b = (case (a, b) of (Fin x, Fin y) \<Rightarrow> (if y = 0 then NaN else Fin (x / y)) | _ \<Rightarrow> NaN)"

text \<open>Truncation toward zero, the integer part that \<open>ToIntegerOrInfinity\<close> and
  \<open>Math.trunc\<close> take.\<close>

definition trunc_rat :: "rat \<Rightarrow> int" where
  "trunc_rat r = (if 0 \<le> r then \<lfloor>r\<rfloor> else \<lceil>r\<rceil>)"

definition Math_trunc :: "jsnum \<Rightarrow> jsnum" where
  "Math_trunc a = (case a of NaN \<Rightarrow> NaN | Fin x \<Rightarrow> Fin (of_int (trunc_rat x)))"

definition Math_abs :: "jsnum \<Rightarrow> jsnum" where
  "Math_abs a = (case a of NaN \<Rightarrow> NaN | Fin x \<Rightarrow> Fin \<bar>x\<bar>)"

text \<open>The remainder \<open>a % b\<close>: its sign is the sign of the dividend.\<close>

definition jrem :: "jsnum \<Rightarrow> jsnum \<Rightarrow> jsnum" where
  "jrem a b = (case (a, b) of
      (Fin x, Fin y) \<Rightarrow> (if y = 0 then NaN else Fin (x - y * of_int (trunc_rat (x / y))))
    | _ \<Rightarrow> NaN)"

text \<open>Comparisons are false as soon as one side is \<open>NaN\<close>.\<close>

definition js_lt :: "jsnum \<Rightarrow> jsnum \<Rightarrow> bool" where
  "js_lt a b = (case (a, b) of (Fin x, Fin y) \<Rightarrow> x < y | _ \<Rightarrow> False)"

definition js_gt :: "jsnum \<Rightarrow> jsnum \<Rightarrow> bool" where
  "js_gt a b = js_lt b a"

definition js_ge :: "jsnum \<Rightarrow> jsnum \<Rightarrow> bool" where
  "js_ge a b = (case (a, b) of (Fin x, Fin y) \<Rightarrow> y \<le> x | _ \<Rightarrow> False)"

text \<open>Strict equality \<open>a === b\<close> of numbers: \<open>NaN\<close> is not equal to itself.\<close>

definition js_eq :: "jsnum \<Rightarrow> jsnum \<Rightarrow> bool" where
  "js_eq a b = (case (a, b) of (Fin x, Fin y) \<Rightarrow> x = y | _ \<Rightarrow> False)"

abbreviation Jint :: "int \<Rightarrow> jsnum" where
  "Jint k \<equiv> Fin (of_int k)"

section \<open>The time values and calendar of ECMAScript\<close>

text \<open>
  A Date object holds a time value: \<open>NaN\<close> (here \<open>None\<close>) or an integer number of
  milliseconds since the epoch, at most \<open>8.64e15\<close> in magnitude. The functions of this
  section are the abstract operations of the ECMAScript specification, section
  ``Date Objects'', which the library calls through the methods of \<open>Date\<close>.
\<close>

type_synonym timeval = "int option"

definition num_of_tv :: "timeval \<Rightarrow> jsnum" where
  "num_of_tv t = (case t of None \<Rightarrow> NaN | Some k \<Rightarrow> Jint k)"

definition msPerDay :: int where "msPerDay = 86400000"
definition msPerHour :: int where "msPerHour = 3600000"
definition msPerMinute :: int where "msPerMinute = 60000"
definition msPerSecond :: int where "msPerSecond = 1000"
definition maxTime :: int where "maxTime = 8640000000000000"

definition Day :: "int \<Rightarrow> int" where
  "Day t = t div msPerDay"

definition TimeWithinDay :: "int \<Rightarrow> int" where
  "TimeWithinDay t = t mod msPerDay"

definition InLeapYear :: "int \<Rightarrow> bool" where
  "InLeapYear y = (y mod 4 = 0 \<and> (y mod 100 \<noteq> 0 \<or> y mod 400 = 0))"

definition DaysInYear :: "int \<Rightarrow> int" where
  "DaysInYear y = (if InLeapYear y then 366 else 365)"

definition DayFromYear :: "int \<Rightarrow> int" where
  "DayFromYear y = 365 * (y - 1970) + (y - 1969) div 4 - (y - 1901) div 100 + (y - 1601) div 400"

text \<open>The year of a day number: the largest \<open>y\<close> with \<open>DayFromYear y \<le> d\<close>, computed from
  an estimate that is off by at most one (lemma \<open>YearFromDay_bounds\<close> below).\<close>

definition YearFromDay :: "int \<Rightarrow> int" where
  "YearFromDay d = (let y = 1970 + (400 * d) div 146097 in
     if d < DayFromYear y then y - 1
     else if DayFromYear (y + 1) \<le> d then y + 1
     else y)"

definition YearFromTime :: "int \<Rightarrow> int" where
  "YearFromTime t = YearFromDay (Day t)"

definition DayWithinYear :: "int \<Rightarrow> int" where
  "DayWithinYear t = Day t - DayFromYear (YearFromTime t)"

text \<open>The day within the year on which month \<open>m\<close> (0 to 11) starts; \<open>l\<close> is 1 in a leap
  year. Month 12 gives the length of the year.\<close>

definition MonthStart :: "int \<Rightarrow> int \<Rightarrow> int" where
  "MonthStart l m =
     (if m \<le> 0 then 0 else if m = 1 then 31 else if m = 2 then 59 + l
      else if m = 3 then 90 + l else if m = 4 then 120 + l else if m = 5 then 151 + l
      else if m = 6 then 181 + l else if m = 7 then 212 + l else if m = 8 then 243 + l
      else if m = 9 then 273 + l else if m = 10 then 304 + l else if m = 11 then 334 + l
      else 365 + l)"

definition leapDays :: "int \<Rightarrow> int" where
  "leapDays y = (if InLeapYear y then 1 else 0)"

definition MonthFromDayInYear :: "int \<Rightarrow> int \<Rightarrow> int" where
  "MonthFromDayInYear l d =
     (if d < 31 then 0 else if d < 59 + l then 1 else if d < 90 + l then 2
      else if d < 120 + l then 3 else if d < 151 + l then 4 else if d < 181 + l then 5
      else if d < 212 + l then 6 else if d < 243 + l then 7 else if d < 273 + l then 8
      else if d < 304 + l then 9 else if d < 334 + l then 10 else 11)"

definition MonthFromTime :: "int \<Rightarrow> int" where
  "MonthFromTime t = MonthFromDayInYear (leapDays (YearFromTime t)) (DayWithinYear t)"

definition DateFromTime :: "int \<Rightarrow> int" where
  "DateFromTime t =
     DayWithinYear t - MonthStart (leapDays (YearFromTime t)) (MonthFromTime t) + 1"

definition WeekDay :: "int \<Rightarrow> int" where
  "WeekDay t = (Day t + 4) mod 7"

definition HourFromTime :: "int \<Rightarrow> int" where
  "HourFromTime t = (t div msPerHour) mod 24"

definition MinFromTime :: "int \<Rightarrow> int" where
  "MinFromTime t = (t div msPerMinute) mod 60"

definition SecFromTime :: "int \<Rightarrow> int" where
  "SecFromTime t = (t div msPerSecond) mod 60"

definition msFromTime :: "int \<Rightarrow> int" where
  "msFromTime t = t mod msPerSecond"

text \<open>The number of days of month \<open>m\<close> (0 to 11) of year \<open>y\<close>.\<close>

definition DaysInMonth :: "int \<Rightarrow> int \<Rightarrow> int" where
  "DaysInMonth y m = MonthStart (leapDays y) (m + 1) - MonthStart (leapDays y) m"

text \<open>\<open>MakeTime\<close>, \<open>MakeDay\<close>, \<open>MakeDate\<close> and \<open>TimeClip\<close> take numbers: a \<open>NaN\<close> argument
  gives \<open>NaN\<close>, a fractional one is truncated toward zero. \<open>MakeDay\<close> finds the day number
  of the first of the month \<open>mn\<close> of the year \<open>ym\<close> and adds \<open>dt - 1\<close>.\<close>

definition MakeTime :: "jsnum \<Rightarrow> jsnum \<Rightarrow> jsnum \<Rightarrow> jsnum \<Rightarrow> jsnum" where
  "MakeTime hour minute sec ms = (case (hour, minute, sec, ms) of
      (Fin h, Fin m, Fin s, Fin milli) \<Rightarrow>
        Jint (trunc_rat h * msPerHour + trunc_rat m * msPerMinute
             + trunc_rat s * msPerSecond + trunc_rat milli)
    | _ \<Rightarrow> NaN)"

definition DayOfMonthStart :: "int \<Rightarrow> int \<Rightarrow> int" where
  "DayOfMonthStart ym mn = DayFromYear ym + MonthStart (leapDays ym) mn"

definition MakeDay :: "jsnum \<Rightarrow> jsnum \<Rightarrow> jsnum \<Rightarrow> jsnum" where
  "MakeDay year month date = (case (year, month, date) of
      (Fin yr, Fin mr, Fin dr) \<Rightarrow>
        (let y = trunc_rat yr; m = trunc_rat mr; dt = trunc_rat dr;
             ym = y + m div 12; mn = m mod 12
         in Jint (DayOfMonthStart ym mn + dt - 1))
    | _ \<Rightarrow> NaN)"

definition MakeDate :: "jsnum \<Rightarrow> jsnum \<Rightarrow> jsnum" where
  "MakeDate day time = (case (day, time) of
      (Fin d, Fin t) \<Rightarrow> Fin (d * of_int msPerDay + t)
    | _ \<Rightarrow> NaN)"

definition TimeClip :: "jsnum \<Rightarrow> timeval" where
  "TimeClip time = (case time of
      NaN \<Rightarrow> None
    | Fin t \<Rightarrow> (if \<bar>t\<bar> > of_int maxTime then None else Some (trunc_rat t)))"


text \<open>\<open>new Date(year, month, date)\<close> maps the years 0 to 99 to 1900 to 1999.\<close>

definition MakeFullYear :: "jsnum \<Rightarrow> jsnum" where
  "MakeFullYear year = (case year of
      NaN \<Rightarrow> NaN
    | Fin y \<Rightarrow> (let yi = trunc_rat y in if 0 \<le> yi \<and> yi \<le> 99 then Jint (1900 + yi) else Fin y))"

subsection \<open>The local time zone\<close>

text \<open>
  The local time zone is the environment of the program. ECMAScript leaves the offsets to
  the host: \<open>utc_offset tz t\<close> is the offset in force at the instant \<open>t\<close>, and
  \<open>local_offset tz t\<close> the offset the host chooses for the wall-clock time \<open>t\<close>. Daylight
  saving time makes both of them vary.
\<close>

record tzone =
  utc_offset :: "int \<Rightarrow> int"
  local_offset :: "int \<Rightarrow> int"

definition LocalTime :: "tzone \<Rightarrow> int \<Rightarrow> int" where
  "LocalTime tz t = t + utc_offset tz t"

definition UTC :: "tzone \<Rightarrow> jsnum \<Rightarrow> jsnum" where
  "UTC tz t = (case t of NaN \<Rightarrow> NaN | Fin x \<Rightarrow> Fin (x - of_int (local_offset tz \<lfloor>x\<rfloor>)))"

text \<open>A zone with one offset all year, in milliseconds.\<close>

definition fixed_zone :: "int \<Rightarrow> tzone" where
  "fixed_zone c = \<lparr>utc_offset = (\<lambda>_. c), local_offset = (\<lambda>_. c)\<rparr>"

subsection \<open>The methods of Date, on time values\<close>

definition get_field :: "(int \<Rightarrow> int) \<Rightarrow> tzone \<Rightarrow> timeval \<Rightarrow> jsnum" where
  "get_field f tz t = (case t of None \<Rightarrow> NaN | Some k \<Rightarrow> Jint (f (LocalTime tz k)))"

definition tv_setMonth :: "tzone \<Rightarrow> jsnum \<Rightarrow> jsnum \<Rightarrow> timeval \<Rightarrow> timeval" where
  "tv_setMonth tz month date t = (case t of
      None \<Rightarrow> None
    | Some k \<Rightarrow>
        (let lt = LocalTime tz k;
             newDate = MakeDate (MakeDay (Jint (YearFromTime lt)) month date)
                                (Jint (TimeWithinDay lt))
         in TimeClip (UTC tz newDate)))"

text \<open>\<open>setFullYear\<close> alone starts from time 0 when the date is invalid.\<close>

definition tv_setFullYear :: "tzone \<Rightarrow> jsnum \<Rightarrow> jsnum \<Rightarrow> jsnum \<Rightarrow> timeval \<Rightarrow> timeval" where
  "tv_setFullYear tz year month date t =
     (let lt = (case t of None \<Rightarrow> 0 | Some k \<Rightarrow> LocalTime tz k);
          newDate = MakeDate (MakeDay year month date) (Jint (TimeWithinDay lt))
      in TimeClip (UTC tz newDate))"

definition tv_setDate :: "tzone \<Rightarrow> jsnum \<Rightarrow> timeval \<Rightarrow> timeval" where
  "tv_setDate tz date t = (case t of
      None \<Rightarrow> None
    | Some k \<Rightarrow>
        (let lt = LocalTime tz k;
             newDate = MakeDate (MakeDay (Jint (YearFromTime lt)) (Jint (MonthFromTime lt)) date)
                                (Jint (TimeWithinDay lt))
         in TimeClip (UTC tz newDate)))"

definition tv_setHours :: "tzone \<Rightarrow> jsnum \<Rightarrow> timeval \<Rightarrow> timeval" where
  "tv_setHours tz hour t = (case t of
      None \<Rightarrow> None
    | Some k \<Rightarrow>
        (let lt = LocalTime tz k;
             newDate = MakeDate (Jint (Day lt))
                         (MakeTime hour (Jint (MinFromTime lt)) (Jint (SecFromTime lt))
                                   (Jint (msFromTime lt)))
         in TimeClip (UTC tz newDate)))"

text \<open>\<open>new Date(year, month, date)\<close>, at local midnight.\<close>

definition tv_of_ymd :: "tzone \<Rightarrow> jsnum \<Rightarrow> jsnum \<Rightarrow> jsnum \<Rightarrow> timeval" where
  "tv_of_ymd tz year month date =
     TimeClip (UTC tz (MakeDate (MakeDay (MakeFullYear year) month date)
                                (MakeTime (Jint 0) (Jint 0) (Jint 0) (Jint 0))))"

section \<open>Date objects and the heap\<close>

text \<open>
  Date objects are mutable and the library both clones and mutates them, so they live in a
  heap: a list of objects, an object's address being its index. An object records the
  constructor it was made with (\<open>Date\<close> itself or a subclass of it, which is what the
  library calls the kind of a date) and its time value. A subclass constructor is taken
  to pass its argument on to \<open>Date\<close>.
\<close>

datatype ctor = DateCtor | SubCtor nat

record date_obj =
  constr :: ctor
  tv :: timeval

type_synonym heap = "date_obj list"

text \<open>The argument type \<open>Date | number\<close>.\<close>

datatype dirty = DateObj nat | Num jsnum

definition new_Date :: "ctor \<Rightarrow> jsnum \<Rightarrow> heap \<Rightarrow> nat \<times> heap" where
  "new_Date c v h = (length h, h @ [\<lparr>constr = c, tv = TimeClip v\<rparr>])"

definition getTime :: "nat \<Rightarrow> heap \<Rightarrow> jsnum" where
  "getTime a h = num_of_tv (tv (h ! a))"

definition getDate :: "tzone \<Rightarrow> nat \<Rightarrow> heap \<Rightarrow> jsnum" where
  "getDate tz a h = get_field DateFromTime tz (tv (h ! a))"

definition getMonth :: "tzone \<Rightarrow> nat \<Rightarrow> heap \<Rightarrow> jsnum" where
  "getMonth tz a h = get_field MonthFromTime tz (tv (h ! a))"

definition getFullYear :: "tzone \<Rightarrow> nat \<Rightarrow> heap \<Rightarrow> jsnum" where
  "getFullYear tz a h = get_field YearFromTime tz (tv (h ! a))"

definition getDay :: "tzone \<Rightarrow> nat \<Rightarrow> heap \<Rightarrow> jsnum" where
  "getDay tz a h = get_field WeekDay tz (tv (h ! a))"

definition getHours :: "tzone \<Rightarrow> nat \<Rightarrow> heap \<Rightarrow> jsnum" where
  "getHours tz a h = get_field HourFromTime tz (tv (h ! a))"

definition getMinutes :: "tzone \<Rightarrow> nat \<Rightarrow> heap \<Rightarrow> jsnum" where
  "getMinutes tz a h = get_field MinFromTime tz (tv (h ! a))"

definition getSeconds :: "tzone \<Rightarrow> nat \<Rightarrow> heap \<Rightarrow> jsnum" where
  "getSeconds tz a h = get_field SecFromTime tz (tv (h ! a))"

definition set_tv :: "nat \<Rightarrow> timeval \<Rightarrow> heap \<Rightarrow> heap" where
  "set_tv a t h = h[a := (h ! a)\<lparr>tv := t\<rparr>]"

definition setMonth :: "tzone \<Rightarrow> nat \<Rightarrow> jsnum \<Rightarrow> jsnum \<Rightarrow> heap \<Rightarrow> heap" where
  "setMonth tz a month date h = set_tv a (tv_setMonth tz month date (tv (h ! a))) h"

definition setFullYear :: "tzone \<Rightarrow> nat \<Rightarrow> jsnum \<Rightarrow> jsnum \<Rightarrow> jsnum \<Rightarrow> heap \<Rightarrow> heap" where
  "setFullYear tz a year month date h =
     set_tv a (tv_setFullYear tz year month date (tv (h ! a))) h"

definition setDate :: "tzone \<Rightarrow> nat \<Rightarrow> jsnum \<Rightarrow> heap \<Rightarrow> heap" where
  "setDate tz a date h = set_tv a (tv_setDate tz date (tv (h ! a))) h"

definition setHours :: "tzone \<Rightarrow> nat \<Rightarrow> jsnum \<Rightarrow> heap \<Rightarrow> heap" where
  "setHours tz a hour h = set_tv a (tv_setHours tz hour (tv (h ! a))) h"


section \<open>The helpers the arithmetic functions import\<close>

text \<open>
  \<open>constructFrom\<close> (src/lastDayOfQuarter/index.ts): a new date made with the constructor
  of the reference date, or with \<open>Date\<close> when the reference is a number. Its callers
  here always pass a number as the value.
\<close>

definition constructFrom :: "dirty \<Rightarrow> jsnum \<Rightarrow> heap \<Rightarrow> nat \<times> heap" where
  "constructFrom date val h = (case date of
      DateObj a \<Rightarrow> new_Date (constr (h ! a)) val h
    | Num _ \<Rightarrow> new_Date DateCtor val h)"

text \<open>
  Modelled from the spec: \<open>toDate\<close> is imported by every function below and is not among
  the sources. Section 4.1 has it accept any date-like input, a date object or a raw
  millisecond timestamp, and produce a date value of the kind the caller used, an
  unusable input giving InvalidDate; section 3 has every date value handed out newly
  constructed, inputs never being mutated. So a date object is cloned with its own
  constructor and a number becomes a \<open>Date\<close> with that time.
\<close>

definition toDate :: "dirty \<Rightarrow> heap \<Rightarrow> nat \<times> heap" where
  "toDate argument h = (case argument of
      DateObj a \<Rightarrow> new_Date (constr (h ! a)) (getTime a h) h
    | Num n \<Rightarrow> new_Date DateCtor n h)"

text \<open>
  Modelled from the spec: \<open>toNumber\<close> is imported by \<open>addMilliseconds\<close> and is not among
  the sources. Section 3 gives a date value as a millisecond offset from the epoch and
  section 4.2 has \<open>addMilliseconds\<close> shift the date by the amount, so \<open>toNumber\<close> reads the
  millisecond value of a date-like input: the time value of a date object, a raw
  timestamp as it is.
\<close>

definition toNumber :: "dirty \<Rightarrow> heap \<Rightarrow> jsnum" where
  "toNumber argument h = (case argument of DateObj a \<Rightarrow> getTime a h | Num n \<Rightarrow> n)"

text \<open>
  Modelled from the spec: \<open>isWeekend\<close>, \<open>isSaturday\<close> and \<open>isSunday\<close> are imported by
  \<open>addBusinessDays\<close> and are not among the sources. Section 6 names them as calendar
  day-of-week predicates, and the glossary has a business day be a day that is neither a
  Saturday nor a Sunday. They read the local day of the week (0 is Sunday, 6 is Saturday)
  and are false on an invalid date, whose day of the week is \<open>NaN\<close>.
\<close>

definition isSaturday :: "tzone \<Rightarrow> nat \<Rightarrow> heap \<Rightarrow> bool" where
  "isSaturday tz a h = js_eq (getDay tz a h) (Jint 6)"

definition isSunday :: "tzone \<Rightarrow> nat \<Rightarrow> heap \<Rightarrow> bool" where
  "isSunday tz a h = js_eq (getDay tz a h) (Jint 0)"

definition isWeekend :: "tzone \<Rightarrow> nat \<Rightarrow> heap \<Rightarrow> bool" where
  "isWeekend tz a h = (js_eq (getDay tz a h) (Jint 0) \<or> js_eq (getDay tz a h) (Jint 6))"

text \<open>
  Modelled from the spec: the module \<open>constants\<close> is not among the sources. Section 4.2
  has the fixed-duration units scale the amount by the milliseconds of the unit.
\<close>

definition millisecondsInMinute :: jsnum where
  "millisecondsInMinute = Jint 60000"

definition millisecondsInHour :: jsnum where
  "millisecondsInHour = Jint 3600000"

text \<open>The type \<open>Duration\<close> (module \<open>types\<close>): seven optional amounts.\<close>

record duration =
  dur_years :: "jsnum option"
  dur_months :: "jsnum option"
  dur_weeks :: "jsnum option"
  dur_days :: "jsnum option"
  dur_hours :: "jsnum option"
  dur_minutes :: "jsnum option"
  dur_seconds :: "jsnum option"

text \<open>The default \<open>= 0\<close> of a destructured field.\<close>

definition or_zero :: "jsnum option \<Rightarrow> jsnum" where
  "or_zero x = (case x of None \<Rightarrow> Jint 0 | Some v \<Rightarrow> v)"

section \<open>The arithmetic functions (src/unnamed/part\_001)\<close>

text \<open>
  Every function takes the time zone of the host and the heap, and returns the address of
  its result with the heap it leaves.
\<close>

definition addMilliseconds :: "dirty \<Rightarrow> jsnum \<Rightarrow> heap \<Rightarrow> nat \<times> heap" where
  "addMilliseconds dirtyDate amount h =
     (let timestamp = toNumber dirtyDate h
      in new_Date DateCtor (jadd timestamp amount) h)"

definition addSeconds :: "dirty \<Rightarrow> jsnum \<Rightarrow> heap \<Rightarrow> nat \<times> heap" where
  "addSeconds dirtyDate amount h = addMilliseconds dirtyDate (jmul amount (Jint 1000)) h"

definition addMonths :: "tzone \<Rightarrow> dirty \<Rightarrow> jsnum \<Rightarrow> heap \<Rightarrow> nat \<times> heap" where
  "addMonths tz dirtyDate amount h0 =
     (let (date, h1) = toDate dirtyDate h0 in
      if isNaN amount then constructFrom dirtyDate NaN h1
      else if js_not amount then (date, h1)
      else
        let dayOfMonth = getDate tz date h1;
            (endOfDesiredMonth, h2) = constructFrom dirtyDate (getTime date h1) h1;
            h3 = setMonth tz endOfDesiredMonth
                   (jadd (jadd (getMonth tz date h2) amount) (Jint 1)) (Jint 0) h2;
            daysInMonth = getDate tz endOfDesiredMonth h3
        in if js_ge dayOfMonth daysInMonth then (endOfDesiredMonth, h3)
           else
             (date, setFullYear tz date (getFullYear tz endOfDesiredMonth h3)
                      (getMonth tz endOfDesiredMonth h3) dayOfMonth h3))"

definition addQuarters :: "tzone \<Rightarrow> dirty \<Rightarrow> jsnum \<Rightarrow> heap \<Rightarrow> nat \<times> heap" where
  "addQuarters tz dirtyDate amount h =
     (let months = jmul amount (Jint 3) in addMonths tz dirtyDate months h)"

definition addYears :: "tzone \<Rightarrow> dirty \<Rightarrow> jsnum \<Rightarrow> heap \<Rightarrow> nat \<times> heap" where
  "addYears tz dirtyDate amount h = addMonths tz dirtyDate (jmul amount (Jint 12)) h"

definition addMinutes :: "dirty \<Rightarrow> jsnum \<Rightarrow> heap \<Rightarrow> nat \<times> heap" where
  "addMinutes dirtyDate amount h =
     addMilliseconds dirtyDate (jmul amount millisecondsInMinute) h"

definition addHours :: "dirty \<Rightarrow> jsnum \<Rightarrow> heap \<Rightarrow> nat \<times> heap" where
  "addHours dirtyDate amount h =
     addMilliseconds dirtyDate (jmul amount millisecondsInHour) h"

definition addDays :: "tzone \<Rightarrow> dirty \<Rightarrow> jsnum \<Rightarrow> heap \<Rightarrow> nat \<times> heap" where
  "addDays tz dirtyDate amount h0 =
     (let (date, h1) = toDate dirtyDate h0 in
      if isNaN amount then constructFrom dirtyDate NaN h1
      else if js_not amount then (date, h1)
      else (date, setDate tz date (jadd (getDate tz date h1) amount) h1))"

definition addWeeks :: "tzone \<Rightarrow> dirty \<Rightarrow> jsnum \<Rightarrow> heap \<Rightarrow> nat \<times> heap" where
  "addWeeks tz dirtyDate amount h =
     (let days = jmul amount (Jint 7) in addDays tz dirtyDate days h)"

text \<open>
  The loop of \<open>addBusinessDays\<close> over the remaining days. Nothing in the loop itself bounds
  the number of its steps (a step that lands on a weekend day leaves \<open>restDays\<close> as it is),
  so it is a partial function: \<open>None\<close> is a loop that never ends.
\<close>

partial_function (option) restDays_loop ::
  "tzone \<Rightarrow> jsnum \<Rightarrow> nat \<Rightarrow> jsnum \<Rightarrow> heap \<Rightarrow> heap option" where
  "restDays_loop tz sign date restDays h =
     (if js_gt restDays (Jint 0) then
        (let h' = setDate tz date (jadd (getDate tz date h) sign) h
         in restDays_loop tz sign date
              (if \<not> isWeekend tz date h' then jsub restDays (Jint 1) else restDays) h')
      else Some h)"

declare restDays_loop.simps [code]

definition addBusinessDays :: "tzone \<Rightarrow> dirty \<Rightarrow> jsnum \<Rightarrow> heap \<Rightarrow> (nat \<times> heap) option" where
  "addBusinessDays tz dirtyDate amount h0 =
     (let (date, h1) = toDate dirtyDate h0;
          startedOnWeekend = isWeekend tz date h1
      in if isNaN amount then Some (constructFrom dirtyDate NaN h1)
         else
           let hours = getHours tz date h1;
               sign = (if js_lt amount (Jint 0) then Jint (- 1) else Jint 1);
               fullWeeks = Math_trunc (jdiv amount (Jint 5));
               h2 = setDate tz date (jadd (getDate tz date h1) (jmul fullWeeks (Jint 7))) h1;
               restDays = Math_abs (jrem amount (Jint 5))
           in case restDays_loop tz sign date restDays h2 of
                None \<Rightarrow> None
              | Some h3 \<Rightarrow>
                 (let h5 =
                    (if startedOnWeekend \<and> isWeekend tz date h3 \<and> \<not> js_eq amount (Jint 0)
                     then
                       let h4 = (if isSaturday tz date h3
                                 then setDate tz date (jadd (getDate tz date h3)
                                        (if js_lt sign (Jint 0) then Jint 2 else Jint (- 1))) h3
                                 else h3)
                       in (if isSunday tz date h4
                           then setDate tz date (jadd (getDate tz date h4)
                                  (if js_lt sign (Jint 0) then Jint 1 else Jint (- 2))) h4
                           else h4)
                     else h3)
                  in Some (date, setHours tz date hours h5)))"

definition add :: "tzone \<Rightarrow> dirty \<Rightarrow> duration \<Rightarrow> heap \<Rightarrow> nat \<times> heap" where
  "add tz dirtyDate dur h0 =
     (let years = or_zero (dur_years dur);
          months = or_zero (dur_months dur);
          weeks = or_zero (dur_weeks dur);
          days = or_zero (dur_days dur);
          hours = or_zero (dur_hours dur);
          minutes = or_zero (dur_minutes dur);
          seconds = or_zero (dur_seconds dur);
          (date, h1) = toDate dirtyDate h0;
          (dateWithMonths, h2) =
             (if \<not> js_not (js_or months years)
              then addMonths tz (DateObj date) (jadd months (jmul years (Jint 12))) h1
              else (date, h1));
          (dateWithDays, h3) =
             (if \<not> js_not (js_or days weeks)
              then addDays tz (DateObj dateWithMonths) (jadd days (jmul weeks (Jint 7))) h2
              else (dateWithMonths, h2));
          minutesToAdd = jadd minutes (jmul hours (Jint 60));
          secondsToAdd = jadd seconds (jmul minutesToAdd (Jint 60));
          msToAdd = jmul secondsToAdd (Jint 1000)
      in constructFrom dirtyDate (jadd (getTime dateWithDays h3) msToAdd) h3)"

section \<open>compareDesc (src/unnamed/part\_002)\<close>

text \<open>The two clones \<open>toDate\<close> makes are read once and dropped, so the function is given
  as the number it returns.\<close>

definition compareDesc :: "dirty \<Rightarrow> dirty \<Rightarrow> heap \<Rightarrow> jsnum" where
  "compareDesc dirtyDateLeft dirtyDateRight h0 =
     (let (dateLeft, h1) = toDate dirtyDateLeft h0;
          (dateRight, h2) = toDate dirtyDateRight h1;
          diff = jsub (getTime dateLeft h2) (getTime dateRight h2)
      in if js_gt diff (Jint 0) then Jint (- 1)
         else if js_lt diff (Jint 0) then Jint 1
         else diff)"

section \<open>formatISO9075 (src/formatISO9075/index.ts)\<close>

datatype error = RangeError string

datatype format_option = Extended | Basic

datatype representation_option = Complete | DateOnly | TimeOnly

record format_options =
  format :: "format_option option"
  representation :: "representation_option option"

text \<open>
  Modelled from the spec: \<open>isValid\<close> is imported by \<open>formatISO9075\<close> and is not among the
  sources. Section 3 has an invalid date be a date value whose millisecond value is
  \<open>NaN\<close>, so a date is valid when its time value is a number.
\<close>

definition isValid :: "nat \<Rightarrow> heap \<Rightarrow> bool" where
  "isValid a h = (\<not> isNaN (getTime a h))"

text \<open>
  Modelled from the spec: \<open>addLeadingZeros\<close> is imported by \<open>formatISO9075\<close> and is not
  among the sources. Section 1 lists leading-zero padding among the shared primitives:
  the decimal digits of the magnitude, padded with zeros on the left up to the target
  length, after the sign.
\<close>

fun decimal :: "nat \<Rightarrow> string" where
  "decimal n = (if n < 10 then [''0123456789'' ! n]
                else decimal (n div 10) @ [''0123456789'' ! (n mod 10)])"

definition addLeadingZeros :: "int \<Rightarrow> nat \<Rightarrow> string" where
  "addLeadingZeros number targetLength =
     (let sign = (if number < 0 then ''-'' else []);
          output = decimal (nat \<bar>number\<bar>)
      in sign @ replicate (targetLength - length output) (CHR ''0'') @ output)"

text \<open>The fields of a valid date are integers; \<open>int_of\<close> reads one of them.\<close>

definition int_of :: "jsnum \<Rightarrow> int" where
  "int_of x = (case x of NaN \<Rightarrow> 0 | Fin r \<Rightarrow> \<lfloor>r\<rfloor>)"

definition formatISO9075 ::
  "tzone \<Rightarrow> dirty \<Rightarrow> format_options option \<Rightarrow> heap \<Rightarrow> error + string" where
  "formatISO9075 tz dirtyDate options h0 =
     (let (originalDate, h1) = toDate dirtyDate h0 in
      if \<not> isValid originalDate h1 then Inl (RangeError ''Invalid time value'')
      else
        let fmt = (case options of None \<Rightarrow> Extended
                   | Some opt \<Rightarrow> (case format opt of None \<Rightarrow> Extended | Some f \<Rightarrow> f));
            repr = (case options of None \<Rightarrow> Complete
                    | Some opt \<Rightarrow> (case representation opt of None \<Rightarrow> Complete | Some r \<Rightarrow> r));
            dateDelimiter = (if fmt = Extended then ''-'' else []);
            timeDelimiter = (if fmt = Extended then '':'' else []);
            result1 =
              (if repr \<noteq> TimeOnly then
                 (let day = addLeadingZeros (int_of (getDate tz originalDate h1)) 2;
                      month = addLeadingZeros (int_of (getMonth tz originalDate h1) + 1) 2;
                      year = addLeadingZeros (int_of (getFullYear tz originalDate h1)) 4
                  in year @ dateDelimiter @ month @ dateDelimiter @ day)
               else []);
            result2 =
              (if repr \<noteq> DateOnly then
                 (let hour = addLeadingZeros (int_of (getHours tz originalDate h1)) 2;
                      minute = addLeadingZeros (int_of (getMinutes tz originalDate h1)) 2;
                      second = addLeadingZeros (int_of (getSeconds tz originalDate h1)) 2;
                      separator = (if result1 = [] then [] else '' '')
                  in result1 @ separator @ hour @ timeDelimiter @ minute @ timeDelimiter @ second)
               else result1)
        in Inr result2)"

section \<open>Notions used to state the properties\<close>

definition jneg :: "jsnum \<Rightarrow> jsnum" where
  "jneg a = (case a of NaN \<Rightarrow> NaN | Fin x \<Rightarrow> Fin (- x))"

text \<open>Every time value a Date object can hold is \<open>NaN\<close> or within the range of
  \<open>TimeClip\<close>.\<close>

definition wf_tv :: "timeval \<Rightarrow> bool" where
  "wf_tv t = (case t of None \<Rightarrow> True | Some k \<Rightarrow> \<bar>k\<bar> \<le> maxTime)"

text \<open>A valid date: an object of the heap whose time value is a number.\<close>

definition valid_date :: "nat \<Rightarrow> heap \<Rightarrow> bool" where
  "valid_date a h =
     (a < length h \<and> (case tv (h ! a) of None \<Rightarrow> False | Some k \<Rightarrow> \<bar>k\<bar> \<le> maxTime))"

text \<open>The time value and the constructor of a returned object.\<close>

definition tv_at :: "nat \<times> heap \<Rightarrow> timeval" where
  "tv_at r = tv (snd r ! fst r)"

definition kind_at :: "nat \<times> heap \<Rightarrow> ctor" where
  "kind_at r = constr (snd r ! fst r)"

text \<open>The timestamp of a date-like input: the time value of its normalisation.\<close>

definition norm_time :: "dirty \<Rightarrow> heap \<Rightarrow> timeval" where
  "norm_time d h = tv_at (toDate d h)"

definition in_heap :: "dirty \<Rightarrow> heap \<Rightarrow> bool" where
  "in_heap d h = (case d of DateObj a \<Rightarrow> a < length h | Num _ \<Rightarrow> True)"

text \<open>
  A zone with daylight saving time, for the examples: one hour ahead of UTC, two hours
  from 30 March 2014, 01:00 UTC, to 26 October 2014, 01:00 UTC. A wall-clock time that
  the change skips is read with the offset before the change, and one that occurs twice
  as its first occurrence.
\<close>

definition summer_zone :: tzone where
  "summer_zone =
     \<lparr>utc_offset = (\<lambda>t. if 1396141200000 \<le> t \<and> t < 1414285200000 then 7200000 else 3600000),
      local_offset = (\<lambda>t. if 1396148400000 \<le> t \<and> t < 1414292400000 then 7200000 else 3600000)\<rparr>"

section \<open>Basic facts\<close>

lemma trunc_rat_of_int [simp]: "trunc_rat (of_int k) = k"
  by (simp add: trunc_rat_def)

lemma TimeClip_Jint: "\<bar>k\<bar> \<le> maxTime \<Longrightarrow> TimeClip (Jint k) = Some k"
  unfolding TimeClip_def
  by (simp add: not_less flip: of_int_abs)

lemma TimeClip_NaN [simp]: "TimeClip NaN = None"
  by (simp add: TimeClip_def)

lemma abs_trunc_rat_le: "\<bar>r\<bar> \<le> of_int m \<Longrightarrow> \<bar>trunc_rat r\<bar> \<le> m"
proof (cases "0 \<le> r")
  case True
  assume "\<bar>r\<bar> \<le> of_int m"
  with True have "r \<le> of_int m" by simp
  then have "\<lfloor>r\<rfloor> \<le> m" by (simp add: floor_le_iff)
  moreover from True have "0 \<le> \<lfloor>r\<rfloor>" by simp
  ultimately show ?thesis using True by (simp add: trunc_rat_def)
next
  case False
  assume "\<bar>r\<bar> \<le> of_int m"
  with False have "of_int (- m) \<le> r" by simp
  then have "- m \<le> \<lceil>r\<rceil>" by (simp only: le_ceiling_iff)
  moreover from False have "\<lceil>r\<rceil> \<le> 0" by (simp add: ceiling_le_iff)
  ultimately show ?thesis using False by (simp add: trunc_rat_def)
qed

lemma wf_TimeClip: "wf_tv (TimeClip x)"
  by (cases x) (simp_all add: wf_tv_def TimeClip_def abs_trunc_rat_le not_less)

lemma TimeClip_num_of_tv: "wf_tv t \<Longrightarrow> TimeClip (num_of_tv t) = t"
  by (cases t) (simp_all add: wf_tv_def num_of_tv_def TimeClip_Jint)

lemma tv_at_new_Date [simp]: "tv_at (new_Date c v h) = TimeClip v"
  by (simp add: tv_at_def new_Date_def)

lemma kind_at_new_Date [simp]: "kind_at (new_Date c v h) = c"
  by (simp add: kind_at_def new_Date_def)

lemma valid_dateD:
  "valid_date a h \<Longrightarrow> \<exists>k. tv (h ! a) = Some k \<and> \<bar>k\<bar> \<le> maxTime \<and> a < length h"
  by (auto simp: valid_date_def split: option.splits)

lemma norm_time_valid: "valid_date a h \<Longrightarrow> norm_time (DateObj a) h = tv (h ! a)"
  by (auto dest!: valid_dateD
      simp: norm_time_def toDate_def getTime_def num_of_tv_def TimeClip_Jint)

section \<open>A zero amount\<close>

text \<open>
  C5. For every valid date \<open>d\<close>, in every time zone, \<open>addMonths(d, 0)\<close> and
  \<open>addDays(d, 0)\<close> each return a date with the timestamp of \<open>d\<close>: a zero amount shifts
  nothing, also next to a change of the offset.
\<close>

theorem zero_amount_is_identity:
  assumes "valid_date a h"
  shows "tv_at (addMonths tz (DateObj a) (Jint 0) h) = tv (h ! a)
       \<and> tv_at (addDays tz (DateObj a) (Jint 0) h) = tv (h ! a)"
  using valid_dateD[OF assms]
  by (auto simp: addMonths_def addDays_def toDate_def isNaN_def js_not_def new_Date_def
      tv_at_def getTime_def num_of_tv_def TimeClip_Jint)

text \<open>The date of the witness is 26 October 2014, 02:30, in the hour that the end of
  daylight saving time repeats.\<close>

theorem zero_amount_is_identity_witness:
  "valid_date 0 [\<lparr>constr = DateCtor, tv = Some 1414287000000\<rparr>]
   \<and> tv_at (addMonths summer_zone (DateObj 0) (Jint 0)
              [\<lparr>constr = DateCtor, tv = Some 1414287000000\<rparr>]) = Some 1414287000000
   \<and> tv_at (addDays summer_zone (DateObj 0) (Jint 0)
              [\<lparr>constr = DateCtor, tv = Some 1414287000000\<rparr>]) = Some 1414287000000"
proof -
  have v: "valid_date 0 [\<lparr>constr = DateCtor, tv = Some 1414287000000\<rparr>]"
    by (simp add: valid_date_def maxTime_def)
  show ?thesis
    using v zero_amount_is_identity [OF v, of summer_zone] by simp
qed

end
